theory Spec2Isabelle
  imports Complex_Main
begin

section \<open>Values of the JavaScript runtime\<close>

text \<open>
  The server (\<^verbatim>\<open>src/server.js\<close>) receives a JSON payload and reads its members without
  any schema, so the payload is modelled as an untyped value. A number is an IEEE double:
  the three special values are kept apart, and a finite double is represented by the
  rational it denotes (comparison of finite doubles is comparison of these rationals;
  negative zero and zero are the same rational, and both are falsy and print as \<open>0\<close>).
  \<open>JSON.parse\<close> never yields \<open>NaN\<close>, but it does yield the infinities (for \<open>1e999\<close>).
  An object is the association list of its own members.
\<close>

datatype jsnum = NaN | PosInf | NegInf | Fin rat

datatype jsval =
    JUndefined
  | JNull
  | JBool bool
  | JNum jsnum
  | JStr string
  | JArr "jsval list"
  | JObj "(string \<times> jsval) list"

text \<open>What the server throws: \<open>new Error(msg)\<close>, and the runtime's own \<open>TypeError\<close> when a
  member of \<open>null\<close> or \<open>undefined\<close> is read, a non-function is called, or an object has no
  primitive value. The wording of a \<open>TypeError\<close> belongs to the engine; for a faulting
  member access the model keeps the name of the member.\<close>

datatype js_error = Error string | TypeError string

text \<open>\<open>String(e)\<close> for a thrown error: the error's name, a colon, the message.\<close>

fun String_of :: "js_error \<Rightarrow> string" where
  "String_of (Error m) = ''Error: '' @ m"
| "String_of (TypeError m) = ''TypeError: '' @ m"

text \<open>Truthiness, as \<open>!v\<close>, \<open>v || d\<close> and \<open>v ? a : b\<close> use it.\<close>

fun truthy :: "jsval \<Rightarrow> bool" where
  "truthy JUndefined = False"
| "truthy JNull = False"
| "truthy (JBool b) = b"
| "truthy (JNum NaN) = False"
| "truthy (JNum (Fin q)) = (q \<noteq> 0)"
| "truthy (JNum PosInf) = True"
| "truthy (JNum NegInf) = True"
| "truthy (JStr s) = (s \<noteq> [])"
| "truthy (JArr xs) = True"
| "truthy (JObj kvs) = True"

text \<open>\<open>a || b\<close> on values.\<close>

definition js_or :: "jsval \<Rightarrow> jsval \<Rightarrow> jsval" where
  "js_or a b = (if truthy a then a else b)"

text \<open>\<open>a <= b\<close> on two numbers: every comparison with \<open>NaN\<close> is false.\<close>

fun num_le :: "jsnum \<Rightarrow> jsnum \<Rightarrow> bool" where
  "num_le NaN b = False"
| "num_le a NaN = False"
| "num_le NegInf b = True"
| "num_le a PosInf = True"
| "num_le PosInf b = False"
| "num_le a NegInf = False"
| "num_le (Fin a) (Fin b) = (a \<le> b)"

text \<open>
  Member access \<open>v.p\<close>, for the member names the server reads (\<open>sourceUrl\<close>, \<open>clips\<close>,
  \<open>start\<close>, \<open>end\<close>, \<open>width\<close>, \<open>height\<close>, \<open>fps\<close>): none of them is defined on a prototype, so
  only an object's own member can give a value other than \<open>undefined\<close>. Reading a member of
  \<open>null\<close> or \<open>undefined\<close> throws.
\<close>

fun member :: "jsval \<Rightarrow> string \<Rightarrow> jsval" where
  "member (JObj kvs) p = (case map_of kvs p of Some v \<Rightarrow> v | None \<Rightarrow> JUndefined)"
| "member v p = JUndefined"

definition get_prop :: "jsval \<Rightarrow> string \<Rightarrow> js_error + jsval" where
  "get_prop v p = (if v = JUndefined \<or> v = JNull then Inl (TypeError p) else Inr (member v p))"

text \<open>Optional chaining \<open>v?.p\<close>.\<close>

definition opt_prop :: "jsval \<Rightarrow> string \<Rightarrow> jsval" where
  "opt_prop v p = (if v = JUndefined \<or> v = JNull then JUndefined else member v p)"

text \<open>\<open>Array.isArray(v)\<close>.\<close>

fun isArray :: "jsval \<Rightarrow> bool" where
  "isArray (JArr xs) = True"
| "isArray v = False"

text \<open>Decimal digits of an array index or an array length (a non-negative integer), as a
  template literal prints it.\<close>

fun dec :: "nat \<Rightarrow> string" where
  "dec n = (if n < 10 then [''0123456789'' ! n]
            else dec (n div 10) @ [''0123456789'' ! (n mod 10)])"

declare dec.simps [simp del]

text \<open>\<open>xs.join(sep)\<close> on strings.\<close>

fun join :: "string \<Rightarrow> string list \<Rightarrow> string" where
  "join sep [] = []"
| "join sep [x] = x"
| "join sep (x # y # ys) = x @ sep @ join sep (y # ys)"

text \<open>
  \<open>ToString\<close>, the conversion a template literal applies to \<open>${v}\<close>, for the values
  \<open>JSON.parse\<close> builds. An integer below \<open>2^53\<close> in magnitude prints as its decimal digits;
  the digits of any other finite number are the runtime's (the shortest digits that read
  back as the same double), taken as the parameter \<open>rt\<close>. An array prints its elements
  joined by commas, \<open>null\<close> and \<open>undefined\<close> as nothing; an object prints as
  \<open>[object Object]\<close>. The conversion throws for an object that has a member named
  \<open>toString\<close> (it hides the inherited method, and no JSON value can be called), and for an
  array with such an element: \<open>no_primitive\<close>. \<open>ToString\<close> gives the text where it does not
  throw, \<open>template\<close> the outcome of \<open>${v}\<close>.
\<close>

fun ToString :: "(rat \<Rightarrow> string) \<Rightarrow> jsval \<Rightarrow> string" where
  "ToString rt JUndefined = ''undefined''"
| "ToString rt JNull = ''null''"
| "ToString rt (JBool b) = (if b then ''true'' else ''false'')"
| "ToString rt (JNum NaN) = ''NaN''"
| "ToString rt (JNum PosInf) = ''Infinity''"
| "ToString rt (JNum NegInf) = ''-Infinity''"
| "ToString rt (JNum (Fin q)) =
     (if q = of_int \<lfloor>q\<rfloor> \<and> \<bar>q\<bar> < 2 ^ 53
      then (if q < 0 then ''-'' @ dec (nat (- \<lfloor>q\<rfloor>)) else dec (nat \<lfloor>q\<rfloor>))
      else rt q)"
| "ToString rt (JStr s) = s"
| "ToString rt (JArr xs) =
     join '','' (map (\<lambda>x. if x = JUndefined \<or> x = JNull then [] else ToString rt x) xs)"
| "ToString rt (JObj kvs) = ''[object Object]''"

fun no_primitive :: "jsval \<Rightarrow> bool" where
  "no_primitive (JArr xs) = list_ex no_primitive xs"
| "no_primitive (JObj kvs) = (map_of kvs ''toString'' \<noteq> None)"
| "no_primitive v = False"

definition template :: "(rat \<Rightarrow> string) \<Rightarrow> jsval \<Rightarrow> js_error + string" where
  "template rt v =
     (if no_primitive v then Inl (TypeError ''Cannot convert object to primitive value'')
      else Inr (ToString rt v))"

section \<open>Clip validation and the filter graph\<close>

text \<open>\<^verbatim>\<open>function requireNumber(v, name)\<close>: throws unless \<open>v\<close> has type number and is not
  \<open>NaN\<close>.\<close>

fun requireNumber :: "jsval \<Rightarrow> string \<Rightarrow> js_error + unit" where
  "requireNumber (JNum n) name =
     (if n = NaN then Inl (Error (name @ '' must be a number'')) else Inr ())"
| "requireNumber v name = Inl (Error (name @ '' must be a number''))"

text \<open>The two filter strings pushed for the clip at index \<open>i\<close>. Their \<open>${c.start}\<close> and
  \<open>${c.end}\<close> are evaluated only for values that passed \<open>requireNumber\<close>, and the
  conversion of a number does not throw.\<close>

definition trim_video :: "(rat \<Rightarrow> string) \<Rightarrow> jsval \<Rightarrow> jsval \<Rightarrow> nat \<Rightarrow> string" where
  "trim_video rt s e i =
     ''[0:v]trim=start='' @ ToString rt s @ '':end='' @ ToString rt e
       @ '',setpts=PTS-STARTPTS[v'' @ dec i @ '']''"

definition trim_audio :: "(rat \<Rightarrow> string) \<Rightarrow> jsval \<Rightarrow> jsval \<Rightarrow> nat \<Rightarrow> string" where
  "trim_audio rt s e i =
     ''[0:a]atrim=start='' @ ToString rt s @ '':end='' @ ToString rt e
       @ '',asetpts=PTS-STARTPTS[a'' @ dec i @ '']''"

text \<open>\<open>c.end <= c.start\<close>, evaluated only after both passed \<open>requireNumber\<close>.\<close>

fun end_le_start :: "jsval \<Rightarrow> jsval \<Rightarrow> bool" where
  "end_le_start (JNum e) (JNum s) = num_le e s"
| "end_le_start e s = False"

text \<open>The body of the \<open>forEach\<close> callback for clip \<open>c\<close> at index \<open>i\<close>, with the \<open>filterParts\<close>
  pushed so far: a throw, or the extended \<open>filterParts\<close>.\<close>

definition clip_step ::
  "(rat \<Rightarrow> string) \<Rightarrow> jsval \<Rightarrow> nat \<Rightarrow> string list \<Rightarrow> js_error + string list" where
  "clip_step rt c i parts =
     (case get_prop c ''start'' of Inl x \<Rightarrow> Inl x | Inr s \<Rightarrow>
     (case requireNumber s ''clip.start'' of Inl x \<Rightarrow> Inl x | Inr u \<Rightarrow>
     (case requireNumber (member c ''end'') ''clip.end'' of Inl x \<Rightarrow> Inl x | Inr u' \<Rightarrow>
      if end_le_start (member c ''end'') s
      then Inl (Error ''clip.end must be > clip.start'')
      else Inr (parts @ [trim_video rt s (member c ''end'') i,
                         trim_audio rt s (member c ''end'') i]))))"

text \<open>\<open>cfg.clips.forEach((c, i) => ...)\<close>: the callback on each element in order, the
  index counting up; the first throw ends the loop.\<close>

fun forEach_clips ::
  "(rat \<Rightarrow> string) \<Rightarrow> jsval list \<Rightarrow> nat \<Rightarrow> string list \<Rightarrow> js_error + string list" where
  "forEach_clips rt [] i parts = Inr parts"
| "forEach_clips rt (c # cs) i parts =
     (case clip_step rt c i parts of
        Inl x \<Rightarrow> Inl x
      | Inr parts' \<Rightarrow> forEach_clips rt cs (Suc i) parts')"

text \<open>\<open>cfg.clips.map((_, i) => `[v${i}]`).join("")\<close>, for a stream letter \<open>v\<close> or \<open>a\<close>.\<close>

definition inputs :: "string \<Rightarrow> nat \<Rightarrow> string" where
  "inputs l n = concat (map (\<lambda>i. ''['' @ l @ dec i @ '']'') [0..<n])"

definition concat_video :: "nat \<Rightarrow> string" where
  "concat_video n = inputs ''v'' n @ ''concat=n='' @ dec n @ '':v=1:a=0[vout]''"

definition concat_audio :: "nat \<Rightarrow> string" where
  "concat_audio n = inputs ''a'' n @ ''concat=n='' @ dec n @ '':v=0:a=1[aout]''"

text \<open>\<open>cfg.width || 1920\<close>, \<open>cfg.height || 1080\<close> and \<open>cfg.fps || 30\<close>.\<close>

definition width_of :: "jsval \<Rightarrow> jsval" where
  "width_of cfg = js_or (member cfg ''width'') (JNum (Fin 1920))"

definition height_of :: "jsval \<Rightarrow> jsval" where
  "height_of cfg = js_or (member cfg ''height'') (JNum (Fin 1080))"

definition fps_of :: "jsval \<Rightarrow> jsval" where
  "fps_of cfg = js_or (member cfg ''fps'') (JNum (Fin 30))"

text \<open>The scale, pad and frame-rate stage pushed last (lines 101 and 102): the
  template literals convert \<open>width\<close>, then \<open>height\<close>, then \<open>fps\<close>, and the first conversion
  that throws ends the building.\<close>

definition scale_stage :: "(rat \<Rightarrow> string) \<Rightarrow> jsval \<Rightarrow> js_error + string" where
  "scale_stage rt cfg =
     (case template rt (width_of cfg) of Inl x \<Rightarrow> Inl x | Inr width \<Rightarrow>
     (case template rt (height_of cfg) of Inl x \<Rightarrow> Inl x | Inr height \<Rightarrow>
     (let scale = ''scale='' @ width @ '':'' @ height
                  @ '':force_original_aspect_ratio=decrease,pad='' @ width
                  @ '':'' @ height @ '':(ow-iw)/2:(oh-ih)/2'' in
     (case template rt (fps_of cfg) of Inl x \<Rightarrow> Inl x | Inr fps \<Rightarrow>
        Inr (''[vout]'' @ scale @ '',fps='' @ fps @ ''[vfinal]'')))))"

text \<open>
  Lines 78 to 102 of \<open>processJob\<close>: the final contents of \<open>filterParts\<close>, or the throw that
  ends the building. \<open>cfg.clips.forEach\<close> on a value that is not an array is a
  \<open>TypeError\<close>.
\<close>

definition filterParts :: "(rat \<Rightarrow> string) \<Rightarrow> jsval \<Rightarrow> js_error + string list" where
  "filterParts rt cfg =
     (case get_prop cfg ''clips'' of Inl x \<Rightarrow> Inl x | Inr clips \<Rightarrow>
     (case clips of
        JArr cs \<Rightarrow>
          (case forEach_clips rt cs 0 [] of Inl x \<Rightarrow> Inl x | Inr parts \<Rightarrow>
          (case scale_stage rt cfg of Inl x \<Rightarrow> Inl x | Inr stage \<Rightarrow>
             Inr (parts @ [concat_video (length cs), concat_audio (length cs), stage])))
      | _ \<Rightarrow> Inl (TypeError ''forEach'')))"

text \<open>A clip that passes the checks of the callback: not \<open>null\<close> or \<open>undefined\<close>, \<open>start\<close>
  and \<open>end\<close> numbers other than \<open>NaN\<close>, and \<open>end <= start\<close> false.\<close>

fun is_number :: "jsval \<Rightarrow> bool" where
  "is_number (JNum n) = (n \<noteq> NaN)"
| "is_number v = False"

definition clip_ok :: "jsval \<Rightarrow> bool" where
  "clip_ok c = (c \<noteq> JUndefined \<and> c \<noteq> JNull
     \<and> is_number (member c ''start'') \<and> is_number (member c ''end'')
     \<and> \<not> end_le_start (member c ''end'') (member c ''start''))"

text \<open>The pair of trims of clip \<open>c\<close> at index \<open>i\<close>.\<close>

definition trim_pair :: "(rat \<Rightarrow> string) \<Rightarrow> jsval \<Rightarrow> nat \<Rightarrow> string list" where
  "trim_pair rt c i = [trim_video rt (member c ''start'') (member c ''end'') i,
                       trim_audio rt (member c ''start'') (member c ''end'') i]"

text \<open>The argument list handed to the render engine, with \<open>filterParts.join(";")\<close>.\<close>

definition ffArgs :: "string \<Rightarrow> string list \<Rightarrow> string \<Rightarrow> string list" where
  "ffArgs srcPath parts outPath =
     [''-y'', ''-i'', srcPath, ''-filter_complex'', join '';'' parts,
      ''-map'', ''[vfinal]'', ''-map'', ''[aout]'',
      ''-c:v'', ''libx264'', ''-preset'', ''veryfast'', ''-crf'', ''20'',
      ''-movflags'', ''+faststart'', ''-pix_fmt'', ''yuv420p'',
      ''-c:a'', ''aac'', ''-b:a'', ''192k'', outPath]"

section \<open>The job store\<close>

text \<open>A job record is an object: a finite map from member names to values. The table
  \<open>jobs\<close> maps job identifiers to records.\<close>

type_synonym job = "string \<rightharpoonup> jsval"
type_synonym job_table = "string \<rightharpoonup> job"

text \<open>\<^verbatim>\<open>function setJob(id, patch)\<close>: \<open>{ ...prev, ...patch }\<close> is the map \<open>prev ++ patch\<close>.\<close>

definition setJob :: "string \<Rightarrow> job \<Rightarrow> job_table \<Rightarrow> job_table" where
  "setJob jid patch tbl =
     (let prev = (case tbl jid of Some j \<Rightarrow> j | None \<Rightarrow> Map.empty)
      in tbl(jid \<mapsto> prev ++ patch))"

text \<open>Reading a member of a record: \<open>job.status\<close>, \<open>job.file\<close>.\<close>

definition field :: "job \<Rightarrow> string \<Rightarrow> jsval" where
  "field j p = (case j p of Some v \<Rightarrow> v | None \<Rightarrow> JUndefined)"

text \<open>The record \<open>POST /render\<close> stores for an accepted request.\<close>

definition queued_record :: job where
  "queued_record = [''status'' \<mapsto> JStr ''queued'', ''progress'' \<mapsto> JNum (Fin 0),
                    ''file'' \<mapsto> JNull, ''error'' \<mapsto> JNull]"

section \<open>The unit of work\<close>

text \<open>
  What lies outside the process is a parameter: the outcome of each awaited call, an
  error (the promise rejects) or a value (it resolves), and for the transfer of the body
  the event that ends it. \<open>to_text\<close> is the parameter \<open>rt\<close> of \<open>ToString\<close>.
\<close>

record response =
  ok :: bool
  status :: nat
  statusText :: string

text \<open>How \<open>r.body.pipe(ws)\<close> ends: the call itself throws, the body emits \<open>error\<close>, the
  write stream emits \<open>finish\<close>, or the write stream emits \<open>error\<close>.\<close>

datatype stream_end =
    Pipe_throws js_error
  | Body_error js_error
  | Finish
  | Write_error js_error

record world =
  to_text :: "rat \<Rightarrow> string"
  mkdtemp :: "js_error + string"
  fetch :: "jsval \<Rightarrow> js_error + response"
  mkdir :: "string \<Rightarrow> js_error + unit"
  pipe :: "string \<Rightarrow> stream_end"
  execFile :: "string list \<Rightarrow> js_error + unit"

text \<open>How a piece of asynchronous code ends: it throws (its promise rejects), it returns
  (its promise is fulfilled), or an \<open>error\<close> event finds no listener: the exception is
  raised outside every \<open>try\<close> and every promise, the awaited promise never settles, and
  the runtime ends the process.\<close>

datatype outcome = Thrown js_error | Returned | Uncaught js_error

text \<open>
  \<^verbatim>\<open>async function download(url, destPath)\<close>. \<open>mkdir w destPath\<close> is the outcome of
  creating the directory of \<open>destPath\<close>. The promise around the transfer rejects when the
  executor throws and on \<open>error\<close> of \<open>r.body\<close>, and resolves on \<open>finish\<close> of \<open>ws\<close>; \<open>ws\<close> has
  no \<open>error\<close> listener.
\<close>

definition download :: "world \<Rightarrow> jsval \<Rightarrow> string \<Rightarrow> outcome" where
  "download w url destPath =
     (case fetch w url of Inl x \<Rightarrow> Thrown x | Inr r \<Rightarrow>
        if \<not> ok r
        then Thrown (Error (''Download failed: '' @ dec (status r) @ '' '' @ statusText r))
        else (case mkdir w destPath of Inl x \<Rightarrow> Thrown x | Inr u \<Rightarrow>
             (case pipe w destPath of
                Pipe_throws e \<Rightarrow> Thrown e
              | Body_error e \<Rightarrow> Thrown e
              | Finish \<Rightarrow> Returned
              | Write_error e \<Rightarrow> Uncaught e)))"

text \<open>\<open>path.join(dir, name)\<close> for a directory the system returned and a plain file name.\<close>

definition path_join :: "string \<Rightarrow> string \<Rightarrow> string" where
  "path_join dir name = dir @ ''/'' @ name"

text \<open>
  The \<open>try\<close> block of \<open>processJob\<close>: the patches it hands to \<open>setJob\<close>, in order, and how
  the block ends.
\<close>

definition processJob_try :: "world \<Rightarrow> jsval \<Rightarrow> job list \<times> outcome" where
  "processJob_try w cfg =
     (let w1 = [[''status'' \<mapsto> JStr ''downloading'', ''progress'' \<mapsto> JNum (Fin 5)]] in
      (case mkdtemp w of Inl x \<Rightarrow> (w1, Thrown x) | Inr tmpDir \<Rightarrow>
      (let srcPath = path_join tmpDir ''source.mp4'' in
      (case get_prop cfg ''sourceUrl'' of Inl x \<Rightarrow> (w1, Thrown x) | Inr url \<Rightarrow>
      (case download w url srcPath of
         Thrown x \<Rightarrow> (w1, Thrown x)
       | Uncaught x \<Rightarrow> (w1, Uncaught x)
       | Returned \<Rightarrow>
      (let w2 = w1 @ [[''status'' \<mapsto> JStr ''preparing'', ''progress'' \<mapsto> JNum (Fin 12)]] in
      (case filterParts (to_text w) cfg of Inl x \<Rightarrow> (w2, Thrown x) | Inr parts \<Rightarrow>
      (let outPath = path_join tmpDir ''out.mp4'';
           w3 = w2 @ [[''status'' \<mapsto> JStr ''rendering'', ''progress'' \<mapsto> JNum (Fin 20)]] in
      (case execFile w (ffArgs srcPath parts outPath) of
         Inl x \<Rightarrow> (w3, Thrown x)
       | Inr u \<Rightarrow>
        (w3 @ [[''status'' \<mapsto> JStr ''completed'', ''progress'' \<mapsto> JNum (Fin 100),
                ''file'' \<mapsto> JStr outPath, ''tmpDir'' \<mapsto> JStr tmpDir]], Returned))))))))))"

text \<open>\<open>try { body } catch (e) { handler }\<close> on such computations: the handler runs for
  what the body throws, and for nothing else.\<close>

definition try_catch ::
  "'w list \<times> outcome \<Rightarrow> (js_error \<Rightarrow> 'w list \<times> outcome) \<Rightarrow> 'w list \<times> outcome" where
  "try_catch body handler =
     (case body of
        (ws, Thrown e) \<Rightarrow> (case handler e of (ws', r) \<Rightarrow> (ws @ ws', r))
      | (ws, Returned) \<Rightarrow> (ws, Returned)
      | (ws, Uncaught e) \<Rightarrow> (ws, Uncaught e))"

text \<open>The \<open>catch\<close> block of \<open>processJob\<close>: one \<open>setJob\<close>, which cannot throw.\<close>

definition processJob_catch :: "js_error \<Rightarrow> job list \<times> outcome" where
  "processJob_catch e =
     ([[''status'' \<mapsto> JStr ''failed'', ''progress'' \<mapsto> JNum (Fin 0),
        ''error'' \<mapsto> JStr (String_of e)]], Returned)"

definition processJob_run :: "world \<Rightarrow> jsval \<Rightarrow> job list \<times> outcome" where
  "processJob_run w cfg = try_catch (processJob_try w cfg) processJob_catch"

text \<open>\<^verbatim>\<open>async function processJob(jobId, cfg)\<close> on the table: the final table and how the
  call ends.\<close>

definition processJob ::
  "world \<Rightarrow> string \<Rightarrow> jsval \<Rightarrow> job_table \<Rightarrow> job_table \<times> outcome" where
  "processJob w jid cfg tbl =
     (case processJob_run w cfg of
        (ws, r) \<Rightarrow> (foldl (\<lambda>t p. setJob jid p t) tbl ws, r))"

text \<open>The queued task with its \<open>.catch\<close>: \<open>queue.add(() => processJob(jobId, payload))
  .catch(err => jobs.set(jobId, {...}))\<close>. The second component is the exception that
  no handler received, if there is one.\<close>

definition run_task ::
  "world \<Rightarrow> string \<Rightarrow> jsval \<Rightarrow> job_table \<Rightarrow> job_table \<times> js_error option" where
  "run_task w jid payload tbl =
     (case processJob w jid payload tbl of
        (tbl', Thrown err) \<Rightarrow>
          (tbl'(jid \<mapsto> [''status'' \<mapsto> JStr ''failed'', ''progress'' \<mapsto> JNum (Fin 0),
                         ''file'' \<mapsto> JNull, ''error'' \<mapsto> JStr (String_of err)]), None)
      | (tbl', Returned) \<Rightarrow> (tbl', None)
      | (tbl', Uncaught e) \<Rightarrow> (tbl', Some e))"

text \<open>The table after each write of a list of patches to one job, the starting table
  first: what a status query can observe between the awaited calls.\<close>

fun trace :: "string \<Rightarrow> job list \<Rightarrow> job_table \<Rightarrow> job_table list" where
  "trace jid [] tbl = [tbl]"
| "trace jid (p # ps) tbl = tbl # trace jid ps (setJob jid p tbl)"

text \<open>The life of an accepted job: the table as \<open>POST /render\<close> leaves it, then after
  each write of its \<open>processJob\<close>. Other requests write other identifiers only, and the
  queue runs one task at a time. After an uncaught exception nothing more is written.\<close>

definition job_life :: "world \<Rightarrow> string \<Rightarrow> jsval \<Rightarrow> job_table \<Rightarrow> job_table list" where
  "job_life w jid payload tbl =
     trace jid (fst (processJob_run w payload)) (tbl(jid \<mapsto> queued_record))"

definition status_of :: "string \<Rightarrow> job_table \<Rightarrow> jsval" where
  "status_of jid tbl = (case tbl jid of Some j \<Rightarrow> field j ''status'' | None \<Rightarrow> JUndefined)"

section \<open>The routes\<close>

text \<open>The server's state: the table and the tasks waiting in the queue.\<close>

record server =
  jobs :: job_table
  queue :: "(string \<times> jsval) list"

text \<open>A reply: \<open>res.status(n).json(v)\<close>, \<open>res.status(n).send(s)\<close>, or
  \<open>res.download(file, name)\<close>. \<open>res.json\<close> leaves out members whose value is
  \<open>undefined\<close>.\<close>

datatype reply = Json nat jsval | Send nat string | Attachment jsval string

definition json_obj :: "(string \<times> jsval) list \<Rightarrow> jsval" where
  "json_obj kvs = JObj (filter (\<lambda>kv. snd kv \<noteq> JUndefined) kvs)"

text \<open>\<open>payload.clips.length\<close>, read only once \<open>Array.isArray\<close> held.\<close>

fun arr_length :: "jsval \<Rightarrow> nat" where
  "arr_length (JArr xs) = length xs"
| "arr_length v = 0"

text \<open>\<^verbatim>\<open>app.post("/render", ...)\<close>, with the identifier \<open>uuid()\<close> returned.\<close>

definition post_render :: "string \<Rightarrow> jsval \<Rightarrow> server \<Rightarrow> reply \<times> server" where
  "post_render jobId payload s =
     (if \<not> truthy (opt_prop payload ''sourceUrl'')
         \<or> \<not> isArray (opt_prop payload ''clips'')
         \<or> arr_length (member payload ''clips'') = 0
      then (Json 400 (json_obj
              [(''error'', JStr ''Invalid payload. Need sourceUrl and non-empty clips[]'')]), s)
      else (Json 200 (json_obj [(''jobId'', JStr jobId)]),
            s\<lparr>jobs := (jobs s)(jobId \<mapsto> queued_record),
              queue := queue s @ [(jobId, payload)]\<rparr>))"

text \<open>\<^verbatim>\<open>app.get("/render/:jobId", ...)\<close>.\<close>

definition get_render :: "string \<Rightarrow> job_table \<Rightarrow> reply" where
  "get_render jobId tbl =
     (case tbl jobId of
        None \<Rightarrow> Json 404 (json_obj [(''error'', JStr ''Not found'')])
      | Some job \<Rightarrow>
          Json 200 (json_obj
            [(''status'', field job ''status''),
             (''progress'', field job ''progress''),
             (''downloadUrl'',
                if truthy (field job ''file'') then JStr (''/download/'' @ jobId) else JNull),
             (''error'', field job ''error'')]))"

text \<open>\<^verbatim>\<open>app.get("/download/:jobId", ...)\<close>.\<close>

definition get_download :: "string \<Rightarrow> job_table \<Rightarrow> reply" where
  "get_download jobId tbl =
     (case tbl jobId of
        None \<Rightarrow> Send 404 ''Not ready''
      | Some job \<Rightarrow>
          if \<not> truthy (field job ''file'') then Send 404 ''Not ready''
          else Attachment (field job ''file'') ''export.mp4'')"

section \<open>Notions of the specification\<close>

text \<open>A finite number, in the specification's words: a number that is neither \<open>NaN\<close> nor
  an infinity.\<close>

fun finite_number :: "jsval \<Rightarrow> bool" where
  "finite_number (JNum (Fin q)) = True"
| "finite_number v = False"

text \<open>An optional number, as the specification describes \<open>width\<close>, \<open>height\<close> and \<open>fps\<close>:
  the member is absent or a number.\<close>

fun optional_number :: "jsval \<Rightarrow> bool" where
  "optional_number JUndefined = True"
| "optional_number (JNum n) = True"
| "optional_number v = False"

text \<open>The filter chains of a graph text: its pieces between semicolons.\<close>

fun graph_chains :: "string \<Rightarrow> string list" where
  "graph_chains [] = [[]]"
| "graph_chains (c # s) =
     (if c = CHR '';'' then [] # graph_chains s
      else (case graph_chains s of [] \<Rightarrow> [[c]] | x # xs \<Rightarrow> (c # x) # xs))"

text \<open>A request with a member left out.\<close>

fun omit :: "string \<Rightarrow> jsval \<Rightarrow> jsval" where
  "omit k (JObj kvs) = JObj (filter (\<lambda>kv. fst kv \<noteq> k) kvs)"
| "omit k v = v"

text \<open>The statuses a job shows over its life, in the order they are written.\<close>

definition statuses :: "world \<Rightarrow> string \<Rightarrow> jsval \<Rightarrow> job_table \<Rightarrow> jsval list" where
  "statuses w jid payload tbl = map (status_of jid) (job_life w jid payload tbl)"

text \<open>The state machine, in the specification's words: the forward order, and the steps
  it allows (to the next state of the order, or from a state that is not terminal to
  \<open>failed\<close>).\<close>

definition forward_order :: "jsval list" where
  "forward_order = [JStr ''queued'', JStr ''downloading'', JStr ''preparing'',
                    JStr ''rendering'', JStr ''completed'']"

definition spec_step :: "jsval \<Rightarrow> jsval \<Rightarrow> bool" where
  "spec_step a b =
     ((a, b) \<in> set (zip forward_order (tl forward_order))
      \<or> (b = JStr ''failed'' \<and> a \<in> set (butlast forward_order)))"

section \<open>Example requests and worlds\<close>

text \<open>The request of the specification's scenario, a request whose second clip has
  \<open>end = start\<close>, and four worlds: one where everything succeeds, one where the source
  answers 404, one where the render engine exits with an error, one where the disk is
  full while the source is written.\<close>

definition request_example :: jsval where
  "request_example =
     JObj [(''sourceUrl'', JStr ''https://x/video.mp4''),
           (''clips'', JArr [JObj [(''start'', JNum (Fin 0)), (''end'', JNum (Fin 5))],
                             JObj [(''start'', JNum (Fin 10)), (''end'', JNum (Fin 12))]])]"

definition request_inverted :: jsval where
  "request_inverted =
     JObj [(''sourceUrl'', JStr ''https://x/video.mp4''),
           (''clips'', JArr [JObj [(''start'', JNum (Fin 0)), (''end'', JNum (Fin 5))],
                             JObj [(''start'', JNum (Fin 7)), (''end'', JNum (Fin 7))]])]"

definition world_ok :: world where
  "world_ok = \<lparr>to_text = (\<lambda>v. []), mkdtemp = Inr ''/tmp/render-a1'',
     fetch = (\<lambda>u. Inr \<lparr>ok = True, status = 200, statusText = ''OK''\<rparr>),
     mkdir = (\<lambda>p. Inr ()), pipe = (\<lambda>p. Finish), execFile = (\<lambda>a. Inr ())\<rparr>"

definition world_404 :: world where
  "world_404 = world_ok\<lparr>fetch := (\<lambda>u. Inr \<lparr>ok = False, status = 404,
     statusText = ''Not Found''\<rparr>)\<rparr>"

definition world_engine_fails :: world where
  "world_engine_fails = world_ok\<lparr>execFile := (\<lambda>a. Inl (Error ''Command failed''))\<rparr>"

definition world_disk_full :: world where
  "world_disk_full = world_ok\<lparr>pipe := (\<lambda>p. Write_error
     (Error ''ENOSPC: no space left on device, write''))\<rparr>"

section \<open>The filter graph of a valid clip list\<close>

lemma requireNumber_fail:
  "\<not> is_number v \<Longrightarrow> requireNumber v name = Inl (Error (name @ '' must be a number''))"
  by (cases v) auto

lemma requireNumber_ok: "is_number v \<Longrightarrow> requireNumber v name = Inr ()"
  by (cases v) auto

lemma clip_step_ok: "clip_ok c \<Longrightarrow> clip_step rt c i parts = Inr (parts @ trim_pair rt c i)"
  by (simp add: clip_ok_def clip_step_def get_prop_def requireNumber_ok trim_pair_def)

lemma clip_step_bad: "\<not> clip_ok c \<Longrightarrow> \<exists>x. clip_step rt c i parts = Inl x"
  by (auto simp: clip_ok_def clip_step_def get_prop_def requireNumber_ok requireNumber_fail
      split: sum.splits)

lemma forEach_clips_ok:
  "list_all clip_ok cs \<Longrightarrow>
   forEach_clips rt cs k parts =
     Inr (parts @ concat (map (\<lambda>j. trim_pair rt (cs ! j) (k + j)) [0..<length cs]))"
proof (induction cs arbitrary: k parts)
  case Nil
  then show ?case by simp
next
  case (Cons c cs)
  then show ?case
    by (simp add: clip_step_ok map_upt_Suc del: upt_Suc)
qed

lemma forEach_clips_bad:
  "\<not> list_all clip_ok cs \<Longrightarrow> \<exists>x. forEach_clips rt cs k parts = Inl x"
proof (induction cs arbitrary: k parts)
  case Nil
  then show ?case by simp
next
  case (Cons c cs)
  show ?case
  proof (cases "clip_ok c")
    case True
    with Cons show ?thesis by (simp add: clip_step_ok)
  next
    case False
    from clip_step_bad [OF this] obtain x where "clip_step rt c k parts = Inl x" by blast
    then show ?thesis by simp
  qed
qed

lemma member_clips_obj: "member cfg p = JArr cs \<Longrightarrow> get_prop cfg p = Inr (JArr cs)"
  by (cases cfg) (auto simp: get_prop_def)

lemma filterParts_ok:
  "member cfg ''clips'' = JArr cs \<Longrightarrow> list_all clip_ok cs \<Longrightarrow>
   filterParts rt cfg =
     (case scale_stage rt cfg of
        Inl x \<Rightarrow> Inl x
      | Inr stage \<Rightarrow>
          Inr (concat (map (\<lambda>j. trim_pair rt (cs ! j) j) [0..<length cs])
               @ [concat_video (length cs), concat_audio (length cs), stage]))"
  by (simp add: filterParts_def member_clips_obj forEach_clips_ok)

lemma filterParts_bad:
  "member cfg ''clips'' = JArr cs \<Longrightarrow> \<not> list_all clip_ok cs \<Longrightarrow>
   \<exists>x. filterParts rt cfg = Inl x"
  using forEach_clips_bad [of cs rt 0 "[]"]
  by (auto simp: filterParts_def member_clips_obj)

lemma dec_defaults: "dec 1920 = ''1920''" "dec 1080 = ''1080''" "dec 30 = ''30''"
  by (simp_all add: dec.simps)

lemma scale_stage_defaults:
  "member cfg ''width'' = JUndefined \<Longrightarrow> member cfg ''height'' = JUndefined \<Longrightarrow>
   member cfg ''fps'' = JUndefined \<Longrightarrow>
   scale_stage rt cfg = Inr ''[vout]scale=1920:1080:force_original_aspect_ratio=decrease,pad=1920:1080:(ow-iw)/2:(oh-ih)/2,fps=30[vfinal]''"
  by (simp add: scale_stage_def template_def width_of_def height_of_def fps_of_def js_or_def
      dec_defaults)

text \<open>
  Claim C1. For a configuration whose \<open>clips\<close> is a non-empty array of clips that all pass
  the checks, the filter program is: for each clip \<open>i\<close>, in order, one video trim and one
  audio trim of the single input, each with its timestamps reset to start at zero
  (\<open>setpts=PTS-STARTPTS\<close>, \<open>asetpts=PTS-STARTPTS\<close>) and labelled \<open>v{i}\<close> and \<open>a{i}\<close>; then
  one video-only concatenation of all \<open>v{i}\<close> into \<open>vout\<close> and, separately, one audio-only
  concatenation of all \<open>a{i}\<close> into \<open>aout\<close>, each with \<open>n\<close> equal to the number of clips;
  then the scale stage. The only throw left is that of the scale stage, for a \<open>width\<close>,
  \<open>height\<close> or \<open>fps\<close> that has no primitive value.
\<close>

theorem C1_trim_pairs_and_concat:
  assumes "member cfg ''clips'' = JArr cs" and "cs \<noteq> []" and "list_all clip_ok cs"
  shows "filterParts rt cfg =
    (case scale_stage rt cfg of
       Inl x \<Rightarrow> Inl x
     | Inr stage \<Rightarrow>
    Inr (concat (map (\<lambda>i.
            [''[0:v]trim=start='' @ ToString rt (member (cs ! i) ''start'')
               @ '':end='' @ ToString rt (member (cs ! i) ''end'')
               @ '',setpts=PTS-STARTPTS[v'' @ dec i @ '']'',
             ''[0:a]atrim=start='' @ ToString rt (member (cs ! i) ''start'')
               @ '':end='' @ ToString rt (member (cs ! i) ''end'')
               @ '',asetpts=PTS-STARTPTS[a'' @ dec i @ '']'']) [0..<length cs])
         @ [concat (map (\<lambda>i. ''[v'' @ dec i @ '']'') [0..<length cs])
              @ ''concat=n='' @ dec (length cs) @ '':v=1:a=0[vout]'',
            concat (map (\<lambda>i. ''[a'' @ dec i @ '']'') [0..<length cs])
              @ ''concat=n='' @ dec (length cs) @ '':v=0:a=1[aout]'',
            stage]))"
  using filterParts_ok [OF assms(1) assms(3), of rt]
  by (cases "scale_stage rt cfg")
     (simp_all add: trim_pair_def trim_video_def trim_audio_def concat_video_def
       concat_audio_def inputs_def)

text \<open>The request of the spec's scenario, two clips, compiled.\<close>

theorem C1_witness:
  "filterParts (\<lambda>v. [])
     (JObj [(''sourceUrl'', JStr ''https://x/video.mp4''),
            (''clips'', JArr [JObj [(''start'', JNum (Fin 0)), (''end'', JNum (Fin 5))],
                              JObj [(''start'', JNum (Fin 10)), (''end'', JNum (Fin 12))]])])
   = Inr [''[0:v]trim=start=0:end=5,setpts=PTS-STARTPTS[v0]'',
          ''[0:a]atrim=start=0:end=5,asetpts=PTS-STARTPTS[a0]'',
          ''[0:v]trim=start=10:end=12,setpts=PTS-STARTPTS[v1]'',
          ''[0:a]atrim=start=10:end=12,asetpts=PTS-STARTPTS[a1]'',
          ''[v0][v1]concat=n=2:v=1:a=0[vout]'',
          ''[a0][a1]concat=n=2:v=0:a=1[aout]'',
          ''[vout]scale=1920:1080:force_original_aspect_ratio=decrease,pad=1920:1080:(ow-iw)/2:(oh-ih)/2,fps=30[vfinal]'']"
  using C1_trim_pairs_and_concat [of
      "JObj [(''sourceUrl'', JStr ''https://x/video.mp4''),
            (''clips'', JArr [JObj [(''start'', JNum (Fin 0)), (''end'', JNum (Fin 5))],
                              JObj [(''start'', JNum (Fin 10)), (''end'', JNum (Fin 12))]])]"
      "[JObj [(''start'', JNum (Fin 0)), (''end'', JNum (Fin 5))],
        JObj [(''start'', JNum (Fin 10)), (''end'', JNum (Fin 12))]]"
      "\<lambda>v. []"]
  by (simp add: clip_ok_def dec.simps scale_stage_defaults)

lemma not_clip_ok_iff:
  "\<not> clip_ok c \<longleftrightarrow>
     \<not> is_number (member c ''start'') \<or> \<not> is_number (member c ''end'')
     \<or> end_le_start (member c ''end'') (member c ''start'')"
  by (cases c) (auto simp: clip_ok_def)

text \<open>
  Claim C2, as amended. If \<open>clips\<close> is an array and any of its clips, at whatever position,
  has a \<open>start\<close> or an \<open>end\<close> that is not a number (a value of another type, a missing
  member, or \<open>NaN\<close>), or has \<open>end <= start\<close>, then building the filter program throws: the
  result is an error and carries no program. The strings pushed for earlier clips are
  lost with the throw.
\<close>

theorem C2_invalid_clip_fails:
  assumes "member cfg ''clips'' = JArr cs" and "c \<in> set cs"
    and "\<not> is_number (member c ''start'') \<or> \<not> is_number (member c ''end'')
         \<or> end_le_start (member c ''end'') (member c ''start'')"
  shows "\<exists>x. filterParts rt cfg = Inl x"
proof -
  from assms(3) have "\<not> clip_ok c" by (simp only: not_clip_ok_iff)
  with assms(2) have "\<not> list_all clip_ok cs" by (auto simp: list_all_iff)
  with assms(1) show ?thesis by (rule filterParts_bad)
qed

text \<open>A valid clip followed by a clip with \<open>end = start\<close>.\<close>

theorem C2_witness:
  "filterParts (\<lambda>v. [])
     (JObj [(''clips'', JArr [JObj [(''start'', JNum (Fin 0)), (''end'', JNum (Fin 5))],
                              JObj [(''start'', JNum (Fin 7)), (''end'', JNum (Fin 7))]])])
   = Inl (Error ''clip.end must be > clip.start'')"
  using C2_invalid_clip_fails [of
      "JObj [(''clips'', JArr [JObj [(''start'', JNum (Fin 0)), (''end'', JNum (Fin 5))],
                              JObj [(''start'', JNum (Fin 7)), (''end'', JNum (Fin 7))]])]"
      "[JObj [(''start'', JNum (Fin 0)), (''end'', JNum (Fin 5))],
        JObj [(''start'', JNum (Fin 7)), (''end'', JNum (Fin 7))]]"
      "JObj [(''start'', JNum (Fin 7)), (''end'', JNum (Fin 7))]" "\<lambda>v. []"]
  by (simp add: filterParts_def get_prop_def clip_step_def trim_video_def trim_audio_def)

text \<open>
  Claim C2 as stated asks for a finite number. \<open>requireNumber\<close> tests the type and \<open>NaN\<close>
  only, so an infinity passes: the clip \<open>{start: 0, end: Infinity}\<close> (the JSON text
  \<open>{"start": 0, "end": 1e999}\<close>) has an \<open>end\<close> that is not a finite number, and it compiles.
\<close>

theorem C2_counterexample:
  "\<not> finite_number (member (JObj [(''start'', JNum (Fin 0)), (''end'', JNum PosInf)]) ''end'')
   \<and> filterParts (\<lambda>v. [])
       (JObj [(''clips'', JArr [JObj [(''start'', JNum (Fin 0)), (''end'', JNum PosInf)]])])
     = Inr [''[0:v]trim=start=0:end=Infinity,setpts=PTS-STARTPTS[v0]'',
            ''[0:a]atrim=start=0:end=Infinity,asetpts=PTS-STARTPTS[a0]'',
            ''[v0]concat=n=1:v=1:a=0[vout]'',
            ''[a0]concat=n=1:v=0:a=1[aout]'',
            ''[vout]scale=1920:1080:force_original_aspect_ratio=decrease,pad=1920:1080:(ow-iw)/2:(oh-ih)/2,fps=30[vfinal]'']"
  by (simp add: filterParts_def get_prop_def clip_step_def trim_video_def trim_audio_def
      concat_video_def concat_audio_def inputs_def dec.simps scale_stage_defaults)

section \<open>Output geometry\<close>

lemma map_of_omit:
  "map_of (filter (\<lambda>kv. fst kv \<noteq> k) kvs) p = (if p = k then None else map_of kvs p)"
  by (induction kvs) auto

lemma member_omit: "member (omit k cfg) p = (if p = k then JUndefined else member cfg p)"
  by (cases cfg) (simp_all add: map_of_omit)

lemma get_prop_omit: "p \<noteq> k \<Longrightarrow> get_prop (omit k cfg) p = get_prop cfg p"
  by (cases cfg) (simp_all add: get_prop_def map_of_omit)

lemma scale_stage_omit:
  "\<not> truthy (member cfg k) \<Longrightarrow> scale_stage rt (omit k cfg) = scale_stage rt cfg"
  by (simp add: scale_stage_def width_of_def height_of_def fps_of_def member_omit js_or_def
      cong: sum.case_cong)

lemma filterParts_omit:
  "k \<noteq> ''clips'' \<Longrightarrow> \<not> truthy (member cfg k) \<Longrightarrow>
   filterParts rt (omit k cfg) = filterParts rt cfg"
  by (auto simp: filterParts_def get_prop_omit scale_stage_omit split: sum.splits jsval.splits)

text \<open>
  Claim C10. The default is taken for every falsy \<open>width\<close>, \<open>height\<close> or \<open>fps\<close> (\<open>0\<close>, \<open>NaN\<close>,
  \<open>null\<close>, \<open>false\<close>, the empty string), not only for an absent one: the stage then prints
  \<open>1920\<close>, \<open>1080\<close> or \<open>30\<close>, and the whole filter program is the one of the same request
  with that member left out.
\<close>

theorem C10_falsy_geometry_defaults:
  "(\<not> truthy (member cfg ''width'') \<longrightarrow>
      ToString rt (width_of cfg) = ''1920''
      \<and> filterParts rt cfg = filterParts rt (omit ''width'' cfg))
   \<and> (\<not> truthy (member cfg ''height'') \<longrightarrow>
      ToString rt (height_of cfg) = ''1080''
      \<and> filterParts rt cfg = filterParts rt (omit ''height'' cfg))
   \<and> (\<not> truthy (member cfg ''fps'') \<longrightarrow>
      ToString rt (fps_of cfg) = ''30''
      \<and> filterParts rt cfg = filterParts rt (omit ''fps'' cfg))"
  by (simp add: width_of_def height_of_def fps_of_def js_or_def dec_defaults
      filterParts_omit)

text \<open>A request with \<open>width: 0\<close> compiles as the request without \<open>width\<close>.\<close>

theorem C10_witness:
  "filterParts (\<lambda>v. [])
     (JObj [(''clips'', JArr [JObj [(''start'', JNum (Fin 0)), (''end'', JNum (Fin 5))]]),
            (''width'', JNum (Fin 0)), (''height'', JNum (Fin 0)), (''fps'', JNum (Fin 0))])
   = filterParts (\<lambda>v. [])
     (JObj [(''clips'', JArr [JObj [(''start'', JNum (Fin 0)), (''end'', JNum (Fin 5))]]),
            (''height'', JNum (Fin 0)), (''fps'', JNum (Fin 0))])
   \<and> ToString (\<lambda>v. []) (width_of
     (JObj [(''clips'', JArr [JObj [(''start'', JNum (Fin 0)), (''end'', JNum (Fin 5))]]),
            (''width'', JNum (Fin 0)), (''height'', JNum (Fin 0)), (''fps'', JNum (Fin 0))]))
     = ''1920''"
  using C10_falsy_geometry_defaults [of
     "JObj [(''clips'', JArr [JObj [(''start'', JNum (Fin 0)), (''end'', JNum (Fin 5))]]),
            (''width'', JNum (Fin 0)), (''height'', JNum (Fin 0)), (''fps'', JNum (Fin 0))]"
     "\<lambda>v. []"]
  by simp

section \<open>The scale stage and the chains of the graph\<close>

text \<open>No semicolon is printed inside a stage, so the chains of the joined text are the
  elements of \<open>filterParts\<close>.\<close>

lemma dec_0: "dec 0 = ''0''"
  by (simp add: dec.simps)

lemma digit_in: "k < 10 \<Longrightarrow> ''0123456789'' ! k \<in> set ''0123456789''"
  by (rule nth_mem) simp

lemma set_dec: "set (dec n) \<subseteq> set ''0123456789''"
proof (induction n rule: dec.induct)
  case (1 n)
  show ?case
  proof (cases "n < 10")
    case True
    then show ?thesis using digit_in [of n] by (subst dec.simps) simp
  next
    case False
    with 1 digit_in [of "n mod 10"] show ?thesis by (subst dec.simps) simp
  qed
qed

lemma dec_no_semi: "CHR '';'' \<notin> set (dec n)"
  using set_dec [of n] by auto

lemma ToString_num_no_semi:
  "\<forall>q. CHR '';'' \<notin> set (rt q) \<Longrightarrow> CHR '';'' \<notin> set (ToString rt (JNum n))"
  by (cases n) (simp_all add: dec_no_semi)

lemma is_number_no_semi:
  "\<forall>q. CHR '';'' \<notin> set (rt q) \<Longrightarrow> is_number v \<Longrightarrow> CHR '';'' \<notin> set (ToString rt v)"
  by (cases v) (simp_all add: ToString_num_no_semi del: ToString.simps)

lemma trim_pair_no_semi:
  "\<forall>q. CHR '';'' \<notin> set (rt q) \<Longrightarrow> clip_ok c \<Longrightarrow> p \<in> set (trim_pair rt c i) \<Longrightarrow>
   CHR '';'' \<notin> set p"
  by (auto simp: trim_pair_def trim_video_def trim_audio_def clip_ok_def dec_no_semi
      is_number_no_semi)

lemma inputs_no_semi: "CHR '';'' \<notin> set l \<Longrightarrow> CHR '';'' \<notin> set (inputs l n)"
  by (auto simp: inputs_def dec_no_semi)

lemma concat_no_semi:
  "CHR '';'' \<notin> set (concat_video n)" "CHR '';'' \<notin> set (concat_audio n)"
  by (simp_all add: concat_video_def concat_audio_def inputs_no_semi dec_no_semi)

lemma chains_single: "CHR '';'' \<notin> set x \<Longrightarrow> graph_chains x = [x]"
  by (induction x) auto

lemma chains_cons:
  "CHR '';'' \<notin> set x \<Longrightarrow> graph_chains (x @ CHR '';'' # s) = x # graph_chains s"
  by (induction x) auto

lemma chains_join:
  "parts \<noteq> [] \<Longrightarrow> \<forall>p \<in> set parts. CHR '';'' \<notin> set p \<Longrightarrow>
   graph_chains (join '';'' parts) = parts"
proof (induction "'';''" parts rule: join.induct)
  case 1
  then show ?case by simp
next
  case (2 x)
  then show ?case by (simp add: chains_single)
next
  case (3 x y ys)
  then show ?case by (simp add: chains_cons del: graph_chains.simps)
qed

text \<open>How the stages begin: only the scale stage reads \<open>vout\<close>, none reads \<open>aout\<close>.\<close>

lemma inputs_Suc:
  "inputs l (Suc n) = ''['' @ l @ ''0]'' @ concat (map (\<lambda>i. ''['' @ l @ dec i @ '']'') [Suc 0..<Suc n])"
  by (simp add: inputs_def upt_conv_Cons dec_0 del: upt_Suc)

lemma concat_video_head:
  "take 6 (concat_video n) \<noteq> ''[vout]'' \<and> take 6 (concat_video n) \<noteq> ''[aout]''"
proof (cases n)
  case 0
  then show ?thesis by (simp add: concat_video_def inputs_def)
next
  case (Suc m)
  then show ?thesis by (simp add: concat_video_def inputs_Suc del: upt_Suc)
qed

lemma concat_audio_head:
  "take 6 (concat_audio n) \<noteq> ''[vout]'' \<and> take 6 (concat_audio n) \<noteq> ''[aout]''"
proof (cases n)
  case 0
  then show ?thesis by (simp add: concat_audio_def inputs_def)
next
  case (Suc m)
  then show ?thesis by (simp add: concat_audio_def inputs_Suc del: upt_Suc)
qed

lemma trim_pair_head:
  "p \<in> set (trim_pair rt c i) \<Longrightarrow> take 6 p \<noteq> ''[vout]'' \<and> take 6 p \<noteq> ''[aout]''"
  by (auto simp: trim_pair_def trim_video_def trim_audio_def)

lemma trims_no_vout:
  "filter (\<lambda>p. take 6 p = ''[vout]'') (concat (map (\<lambda>j. trim_pair rt (cs ! j) j) [0..<n])) = []"
  by (auto simp: filter_empty_conv dest: trim_pair_head)

lemma trims_no_aout:
  "filter (\<lambda>p. take 6 p = ''[aout]'') (concat (map (\<lambda>j. trim_pair rt (cs ! j) j) [0..<n])) = []"
  by (auto simp: filter_empty_conv dest: trim_pair_head)

lemma trims_no_semi:
  assumes "\<forall>q. CHR '';'' \<notin> set (rt q)" and "list_all clip_ok cs"
    and "p \<in> set (concat (map (\<lambda>j. trim_pair rt (cs ! j) j) [0..<length cs]))"
  shows "CHR '';'' \<notin> set p"
proof -
  from assms(3) obtain j where j: "j < length cs" "p \<in> set (trim_pair rt (cs ! j) j)"
    by auto
  from assms(2) j(1) have "clip_ok (cs ! j)" by (simp add: list_all_length)
  from trim_pair_no_semi [OF assms(1) this j(2)] show ?thesis .
qed

text \<open>The text printed for an optional number with a default.\<close>

lemma template_optional_number:
  "optional_number v \<Longrightarrow>
   template rt (js_or v (JNum (Fin d))) =
     Inr (if truthy v then ToString rt v else ToString rt (JNum (Fin d)))"
  by (cases v) (simp_all add: template_def js_or_def del: ToString.simps)

lemma optional_number_no_semi:
  "\<forall>q. CHR '';'' \<notin> set (rt q) \<Longrightarrow> optional_number v \<Longrightarrow> truthy v \<Longrightarrow>
   CHR '';'' \<notin> set (ToString rt v)"
  by (cases v) (simp_all add: ToString_num_no_semi del: ToString.simps)

lemma scale_stage_numbers:
  assumes "optional_number (member cfg ''width'')" "optional_number (member cfg ''height'')"
    "optional_number (member cfg ''fps'')"
  shows "scale_stage rt cfg =
     Inr (''[vout]scale=''
       @ (if truthy (member cfg ''width'') then ToString rt (member cfg ''width'') else ''1920'')
       @ '':''
       @ (if truthy (member cfg ''height'') then ToString rt (member cfg ''height'') else ''1080'')
       @ '':force_original_aspect_ratio=decrease,pad=''
       @ (if truthy (member cfg ''width'') then ToString rt (member cfg ''width'') else ''1920'')
       @ '':''
       @ (if truthy (member cfg ''height'') then ToString rt (member cfg ''height'') else ''1080'')
       @ '':(ow-iw)/2:(oh-ih)/2,fps=''
       @ (if truthy (member cfg ''fps'') then ToString rt (member cfg ''fps'') else ''30'')
       @ ''[vfinal]'')"
  using assms
  by (simp add: scale_stage_def width_of_def height_of_def fps_of_def
      template_optional_number dec_defaults del: ToString.simps)
     (simp add: dec_defaults)

text \<open>What the engine is run on, once the source is fetched and the program built.\<close>

lemma processJob_try_engine:
  assumes "mkdtemp w = Inr d" and "get_prop cfg ''sourceUrl'' = Inr url"
    and "download w url (path_join d ''source.mp4'') = Returned"
    and "filterParts (to_text w) cfg = Inr parts"
  shows "snd (processJob_try w cfg) =
     (case execFile w (ffArgs (path_join d ''source.mp4'') parts (path_join d ''out.mp4'')) of
        Inl e \<Rightarrow> Thrown e | Inr u \<Rightarrow> Returned)"
  using assms by (simp add: processJob_try_def split: sum.splits)

text \<open>
  Claim C5. Take a configuration whose clips all pass the checks and whose \<open>width\<close>,
  \<open>height\<close> and \<open>fps\<close> are each absent or a number, and a runtime that prints no semicolon
  in a number. The filter program then ends with the stage
  \<open>[vout]scale=W:H:force_original_aspect_ratio=decrease,pad=W:H:(ow-iw)/2:(oh-ih)/2,fps=F[vfinal]\<close>,
  where \<open>W\<close>, \<open>H\<close> and \<open>F\<close> are the request's \<open>width\<close>, \<open>height\<close> and \<open>fps\<close> as printed, or
  \<open>1920\<close>, \<open>1080\<close> and \<open>30\<close> where the member is absent (or falsy): scale to fit the box
  keeping the aspect ratio, pad to exactly \<open>W\<close> by \<open>H\<close> with the picture centred, then the
  requested frame rate. The chains of the graph text handed to the engine (its pieces
  between semicolons) are exactly the elements of the program; among them this stage is
  the only one that reads \<open>vout\<close>, and none reads \<open>aout\<close>. The engine is run with this
  text as \<open>-filter_complex\<close> and with \<open>-map [vfinal]\<close> and \<open>-map [aout]\<close>, so the audio is
  taken as the concatenation leaves it.
\<close>

theorem C5_scale_pad_fps:
  assumes "member cfg ''clips'' = JArr cs" and "list_all clip_ok cs"
    and "optional_number (member cfg ''width'')"
    and "optional_number (member cfg ''height'')"
    and "optional_number (member cfg ''fps'')"
    and "\<forall>q. CHR '';'' \<notin> set (rt q)"
  defines "W \<equiv> if truthy (member cfg ''width'') then ToString rt (member cfg ''width'')
                 else ''1920''"
    and "H \<equiv> if truthy (member cfg ''height'') then ToString rt (member cfg ''height'')
                 else ''1080''"
    and "F \<equiv> if truthy (member cfg ''fps'') then ToString rt (member cfg ''fps'')
                 else ''30''"
  shows "\<exists>parts. filterParts rt cfg = Inr parts
    \<and> last parts =
        ''[vout]scale='' @ W @ '':'' @ H @ '':force_original_aspect_ratio=decrease,pad='' @ W
          @ '':'' @ H @ '':(ow-iw)/2:(oh-ih)/2,fps='' @ F @ ''[vfinal]''
    \<and> graph_chains (join '';'' parts) = parts
    \<and> filter (\<lambda>p. take 6 p = ''[vout]'') (graph_chains (join '';'' parts)) = [last parts]
    \<and> filter (\<lambda>p. take 6 p = ''[aout]'') (graph_chains (join '';'' parts)) = []
    \<and> (\<forall>w d. to_text w = rt \<and> mkdtemp w = Inr d
          \<and> download w (member cfg ''sourceUrl'') (path_join d ''source.mp4'') = Returned
        \<longrightarrow> snd (processJob_try w cfg) =
            (case execFile w
               [''-y'', ''-i'', path_join d ''source.mp4'',
                ''-filter_complex'', join '';'' parts,
                ''-map'', ''[vfinal]'', ''-map'', ''[aout]'',
                ''-c:v'', ''libx264'', ''-preset'', ''veryfast'', ''-crf'', ''20'',
                ''-movflags'', ''+faststart'', ''-pix_fmt'', ''yuv420p'',
                ''-c:a'', ''aac'', ''-b:a'', ''192k'', path_join d ''out.mp4'']
             of Inl e \<Rightarrow> Thrown e | Inr u \<Rightarrow> Returned))"
proof -
  let ?trims = "concat (map (\<lambda>j. trim_pair rt (cs ! j) j) [0..<length cs])"
  let ?st = "''[vout]scale='' @ W @ '':'' @ H @ '':force_original_aspect_ratio=decrease,pad=''
      @ W @ '':'' @ H @ '':(ow-iw)/2:(oh-ih)/2,fps='' @ F @ ''[vfinal]''"
  let ?parts = "?trims @ [concat_video (length cs), concat_audio (length cs), ?st]"
  have st: "scale_stage rt cfg = Inr ?st"
    unfolding W_def H_def F_def using assms(3-5) by (rule scale_stage_numbers)
  have parts: "filterParts rt cfg = Inr ?parts"
    using filterParts_ok [OF assms(1,2), of rt] by (simp add: st)
  have l: "last ?parts = ?st" by simp
  have semi_W: "CHR '';'' \<notin> set W" "CHR '';'' \<notin> set H" "CHR '';'' \<notin> set F"
    unfolding W_def H_def F_def
    using optional_number_no_semi [OF assms(6)] assms(3-5) by auto
  have semi_st: "CHR '';'' \<notin> set ?st"
    using semi_W by simp
  have semi: "\<forall>p \<in> set ?parts. CHR '';'' \<notin> set p"
    using trims_no_semi [OF assms(6) assms(2)] semi_st
    by (auto simp: concat_no_semi simp del: set_concat)
  have ch: "graph_chains (join '';'' ?parts) = ?parts"
    by (rule chains_join [OF _ semi]) simp
  have hd_st: "take 6 ?st = ''[vout]''" by simp
  have v: "filter (\<lambda>p. take 6 p = ''[vout]'') ?parts = [?st]"
    using hd_st
    by (simp add: trims_no_vout concat_video_head concat_audio_head del: append.simps
        take_append)
  have a: "filter (\<lambda>p. take 6 p = ''[aout]'') ?parts = []"
    using hd_st
    by (simp add: trims_no_aout concat_video_head concat_audio_head del: append.simps
        take_append)
  have e: "\<forall>w d. to_text w = rt \<and> mkdtemp w = Inr d
          \<and> download w (member cfg ''sourceUrl'') (path_join d ''source.mp4'') = Returned
        \<longrightarrow> snd (processJob_try w cfg) =
            (case execFile w
               [''-y'', ''-i'', path_join d ''source.mp4'',
                ''-filter_complex'', join '';'' ?parts,
                ''-map'', ''[vfinal]'', ''-map'', ''[aout]'',
                ''-c:v'', ''libx264'', ''-preset'', ''veryfast'', ''-crf'', ''20'',
                ''-movflags'', ''+faststart'', ''-pix_fmt'', ''yuv420p'',
                ''-c:a'', ''aac'', ''-b:a'', ''192k'', path_join d ''out.mp4'']
             of Inl e \<Rightarrow> Thrown e | Inr u \<Rightarrow> Returned)"
  proof (intro allI impI, elim conjE)
    fix w d
    assume w: "to_text w = rt" "mkdtemp w = Inr d"
      "download w (member cfg ''sourceUrl'') (path_join d ''source.mp4'') = Returned"
    have g: "get_prop cfg ''sourceUrl'' = Inr (member cfg ''sourceUrl'')"
      using assms(1) by (cases cfg) (auto simp: get_prop_def)
    from processJob_try_engine [OF w(2) g w(3), of ?parts] parts w(1)
    show "snd (processJob_try w cfg) =
            (case execFile w
               [''-y'', ''-i'', path_join d ''source.mp4'',
                ''-filter_complex'', join '';'' ?parts,
                ''-map'', ''[vfinal]'', ''-map'', ''[aout]'',
                ''-c:v'', ''libx264'', ''-preset'', ''veryfast'', ''-crf'', ''20'',
                ''-movflags'', ''+faststart'', ''-pix_fmt'', ''yuv420p'',
                ''-c:a'', ''aac'', ''-b:a'', ''192k'', path_join d ''out.mp4'']
             of Inl e \<Rightarrow> Thrown e | Inr u \<Rightarrow> Returned)"
      by (simp add: ffArgs_def)
  qed
  show ?thesis
    apply (rule exI [of _ ?parts])
    apply (intro conjI)
         apply (rule parts)
        apply (rule l)
       apply (rule ch)
      apply (simp only: ch l v)
     apply (simp only: ch a)
    apply (rule e)
    done
qed

text \<open>A request for 1280 by 720 at 24 frames per second.\<close>

theorem C5_witness:
  "filterParts (\<lambda>v. [])
     (JObj [(''clips'', JArr [JObj [(''start'', JNum (Fin 0)), (''end'', JNum (Fin 5))]]),
            (''width'', JNum (Fin 1280)), (''height'', JNum (Fin 720)),
            (''fps'', JNum (Fin 24))])
   = Inr [''[0:v]trim=start=0:end=5,setpts=PTS-STARTPTS[v0]'',
          ''[0:a]atrim=start=0:end=5,asetpts=PTS-STARTPTS[a0]'',
          ''[v0]concat=n=1:v=1:a=0[vout]'',
          ''[a0]concat=n=1:v=0:a=1[aout]'',
          ''[vout]scale=1280:720:force_original_aspect_ratio=decrease,pad=1280:720:(ow-iw)/2:(oh-ih)/2,fps=24[vfinal]'']"
  using C5_scale_pad_fps [of
     "JObj [(''clips'', JArr [JObj [(''start'', JNum (Fin 0)), (''end'', JNum (Fin 5))]]),
            (''width'', JNum (Fin 1280)), (''height'', JNum (Fin 720)),
            (''fps'', JNum (Fin 24))]"
     "[JObj [(''start'', JNum (Fin 0)), (''end'', JNum (Fin 5))]]" "\<lambda>v. []"]
  by (simp add: filterParts_def get_prop_def clip_step_def trim_video_def trim_audio_def
      concat_video_def concat_audio_def inputs_def dec.simps scale_stage_def template_def
      width_of_def height_of_def fps_of_def js_or_def)

section \<open>The job store and the life of a job\<close>

text \<open>
  Claim C9. \<open>setJob\<close> is a merge: the record stored for the identifier has, for every
  member the patch names, the patch's value, and for every other member what the record
  had before (nothing, if there was no record); the records of all other identifiers are
  unchanged.
\<close>

theorem C9_setJob_merge:
  "(\<exists>r. setJob jid patch tbl jid = Some r
      \<and> (\<forall>f. f \<in> dom patch \<longrightarrow> r f = patch f)
      \<and> (\<forall>f. f \<notin> dom patch \<longrightarrow> r f = (case tbl jid of Some prev \<Rightarrow> prev f | None \<Rightarrow> None)))
   \<and> (\<forall>k. k \<noteq> jid \<longrightarrow> setJob jid patch tbl k = tbl k)"
  by (auto simp: setJob_def Let_def map_add_def split: option.splits)

text \<open>The first write of a job: \<open>status\<close> is overwritten, \<open>file\<close> is kept.\<close>

theorem C9_witness:
  "field (the (setJob ''j1'' [''status'' \<mapsto> JStr ''downloading'', ''progress'' \<mapsto> JNum (Fin 5)]
                 [''j1'' \<mapsto> queued_record] ''j1'')) ''status'' = JStr ''downloading''
   \<and> field (the (setJob ''j1'' [''status'' \<mapsto> JStr ''downloading'', ''progress'' \<mapsto> JNum (Fin 5)]
                 [''j1'' \<mapsto> queued_record] ''j1'')) ''file'' = JNull"
  using C9_setJob_merge [of "''j1''"
      "[''status'' \<mapsto> JStr ''downloading'', ''progress'' \<mapsto> JNum (Fin 5)]"
      "[''j1'' \<mapsto> queued_record]"]
  by (simp add: setJob_def field_def queued_record_def)

text \<open>The five shapes of a run: a throw while downloading, while preparing, while
  rendering, none, or an uncaught exception while downloading.\<close>

lemma processJob_run_cases:
  defines "pd \<equiv> [''status'' \<mapsto> JStr ''downloading'', ''progress'' \<mapsto> JNum (Fin 5)]"
    and "pp \<equiv> [''status'' \<mapsto> JStr ''preparing'', ''progress'' \<mapsto> JNum (Fin 12)]"
    and "pr \<equiv> [''status'' \<mapsto> JStr ''rendering'', ''progress'' \<mapsto> JNum (Fin 20)]"
    and "pf \<equiv> \<lambda>e. [''status'' \<mapsto> JStr ''failed'', ''progress'' \<mapsto> JNum (Fin 0),
                     ''error'' \<mapsto> JStr (String_of e)]"
    and "pc \<equiv> \<lambda>d. [''status'' \<mapsto> JStr ''completed'', ''progress'' \<mapsto> JNum (Fin 100),
                     ''file'' \<mapsto> JStr (path_join d ''out.mp4''), ''tmpDir'' \<mapsto> JStr d]"
  shows "(\<exists>e. processJob_run w cfg = ([pd, pf e], Returned))
       \<or> (\<exists>e. processJob_run w cfg = ([pd, pp, pf e], Returned))
       \<or> (\<exists>e. processJob_run w cfg = ([pd, pp, pr, pf e], Returned))
       \<or> (\<exists>d. mkdtemp w = Inr d \<and> processJob_run w cfg = ([pd, pp, pr, pc d], Returned))
       \<or> (\<exists>e. processJob_run w cfg = ([pd], Uncaught e))"
  unfolding assms
  by (auto simp: processJob_run_def try_catch_def processJob_catch_def processJob_try_def
      Let_def split: sum.splits outcome.splits)

lemmas life_simps = statuses_def job_life_def setJob_def status_of_def field_def
  queued_record_def

text \<open>
  Claim C3. The statuses a job shows, from the record \<open>POST /render\<close> stores through every
  write of its \<open>processJob\<close>, are \<open>queued\<close>, \<open>downloading\<close>, then either \<open>failed\<close>, or
  \<open>preparing\<close> and then either \<open>failed\<close>, or \<open>rendering\<close> and then \<open>failed\<close> or \<open>completed\<close>;
  a run that ends in an uncaught exception shows \<open>queued\<close> and \<open>downloading\<close> and nothing
  more. So no status is shown twice, and every move is a step of the state machine: to
  the next state of the forward order, or from a state that is not terminal to \<open>failed\<close>.
\<close>

theorem C3_status_order:
  "(case snd (processJob_run w payload) of
      Uncaught e \<Rightarrow>
        statuses w jid payload tbl = [JStr ''queued'', JStr ''downloading'']
    | _ \<Rightarrow>
        statuses w jid payload tbl \<in>
          {[JStr ''queued'', JStr ''downloading'', JStr ''failed''],
           [JStr ''queued'', JStr ''downloading'', JStr ''preparing'', JStr ''failed''],
           [JStr ''queued'', JStr ''downloading'', JStr ''preparing'', JStr ''rendering'',
            JStr ''failed''],
           [JStr ''queued'', JStr ''downloading'', JStr ''preparing'', JStr ''rendering'',
            JStr ''completed'']})
   \<and> distinct (statuses w jid payload tbl)
   \<and> successively spec_step (statuses w jid payload tbl)"
proof -
  have shape: "(case snd (processJob_run w payload) of
      Uncaught e \<Rightarrow>
        statuses w jid payload tbl = [JStr ''queued'', JStr ''downloading'']
    | _ \<Rightarrow>
        statuses w jid payload tbl \<in>
          {[JStr ''queued'', JStr ''downloading'', JStr ''failed''],
           [JStr ''queued'', JStr ''downloading'', JStr ''preparing'', JStr ''failed''],
           [JStr ''queued'', JStr ''downloading'', JStr ''preparing'', JStr ''rendering'',
            JStr ''failed''],
           [JStr ''queued'', JStr ''downloading'', JStr ''preparing'', JStr ''rendering'',
            JStr ''completed'']})"
    using processJob_run_cases [of w payload]
    by (elim disjE exE conjE) (simp_all add: life_simps)
  then show ?thesis
    by (cases "snd (processJob_run w payload)")
       (auto simp: spec_step_def forward_order_def)
qed

text \<open>Runs of the example requests: \<open>failed\<close> is reached from \<open>downloading\<close>, from
  \<open>preparing\<close> and from \<open>rendering\<close>, and \<open>completed\<close> is reached.\<close>

lemma filterParts_example: "\<exists>parts. filterParts rt request_example = Inr parts"
  by (simp add: request_example_def filterParts_def get_prop_def clip_step_def
      scale_stage_defaults)

lemma filterParts_inverted:
  "filterParts rt request_inverted = Inl (Error ''clip.end must be > clip.start'')"
  by (simp add: request_inverted_def filterParts_def get_prop_def clip_step_def)

lemma dec_404: "dec 404 = ''404''"
  by (simp add: dec.simps)

lemma sourceUrl_example:
  "get_prop request_example ''sourceUrl'' = Inr (JStr ''https://x/video.mp4'')"
  "get_prop request_inverted ''sourceUrl'' = Inr (JStr ''https://x/video.mp4'')"
  by (simp_all add: request_example_def request_inverted_def get_prop_def)

lemma run_404:
  "processJob_run world_404 request_example =
     ([[''status'' \<mapsto> JStr ''downloading'', ''progress'' \<mapsto> JNum (Fin 5)],
       [''status'' \<mapsto> JStr ''failed'', ''progress'' \<mapsto> JNum (Fin 0),
        ''error'' \<mapsto> JStr ''Error: Download failed: 404 Not Found'']], Returned)"
  by (simp add: processJob_run_def try_catch_def processJob_catch_def processJob_try_def
      world_404_def world_ok_def sourceUrl_example download_def dec_404)

lemma run_inverted:
  "processJob_run world_ok request_inverted =
     ([[''status'' \<mapsto> JStr ''downloading'', ''progress'' \<mapsto> JNum (Fin 5)],
       [''status'' \<mapsto> JStr ''preparing'', ''progress'' \<mapsto> JNum (Fin 12)],
       [''status'' \<mapsto> JStr ''failed'', ''progress'' \<mapsto> JNum (Fin 0),
        ''error'' \<mapsto> JStr ''Error: clip.end must be > clip.start'']], Returned)"
  by (simp add: processJob_run_def try_catch_def processJob_catch_def processJob_try_def
      world_ok_def sourceUrl_example download_def filterParts_inverted)

lemma run_engine_fails:
  "processJob_run world_engine_fails request_example =
     ([[''status'' \<mapsto> JStr ''downloading'', ''progress'' \<mapsto> JNum (Fin 5)],
       [''status'' \<mapsto> JStr ''preparing'', ''progress'' \<mapsto> JNum (Fin 12)],
       [''status'' \<mapsto> JStr ''rendering'', ''progress'' \<mapsto> JNum (Fin 20)],
       [''status'' \<mapsto> JStr ''failed'', ''progress'' \<mapsto> JNum (Fin 0),
        ''error'' \<mapsto> JStr ''Error: Command failed'']], Returned)"
proof -
  obtain parts where p: "filterParts (\<lambda>v. []) request_example = Inr parts"
    using filterParts_example by blast
  show ?thesis
    by (simp add: processJob_run_def try_catch_def processJob_catch_def processJob_try_def
      world_engine_fails_def world_ok_def download_def p sourceUrl_example)
qed

lemma run_ok:
  "processJob_run world_ok request_example =
     ([[''status'' \<mapsto> JStr ''downloading'', ''progress'' \<mapsto> JNum (Fin 5)],
       [''status'' \<mapsto> JStr ''preparing'', ''progress'' \<mapsto> JNum (Fin 12)],
       [''status'' \<mapsto> JStr ''rendering'', ''progress'' \<mapsto> JNum (Fin 20)],
       [''status'' \<mapsto> JStr ''completed'', ''progress'' \<mapsto> JNum (Fin 100),
        ''file'' \<mapsto> JStr ''/tmp/render-a1/out.mp4'',
        ''tmpDir'' \<mapsto> JStr ''/tmp/render-a1'']], Returned)"
proof -
  obtain parts where p: "filterParts (\<lambda>v. []) request_example = Inr parts"
    using filterParts_example by blast
  show ?thesis
    by (simp add: processJob_run_def try_catch_def processJob_catch_def processJob_try_def
      world_ok_def download_def path_join_def p sourceUrl_example)
qed

lemma run_disk_full:
  "processJob_run world_disk_full request_example =
     ([[''status'' \<mapsto> JStr ''downloading'', ''progress'' \<mapsto> JNum (Fin 5)]],
      Uncaught (Error ''ENOSPC: no space left on device, write''))"
  by (simp add: processJob_run_def try_catch_def processJob_try_def
      world_disk_full_def world_ok_def sourceUrl_example download_def)

lemma statuses_examples:
  "statuses world_404 ''j1'' request_example Map.empty =
     [JStr ''queued'', JStr ''downloading'', JStr ''failed'']"
  "statuses world_ok ''j1'' request_inverted Map.empty =
     [JStr ''queued'', JStr ''downloading'', JStr ''preparing'', JStr ''failed'']"
  "statuses world_engine_fails ''j1'' request_example Map.empty =
     [JStr ''queued'', JStr ''downloading'', JStr ''preparing'', JStr ''rendering'',
      JStr ''failed'']"
  "statuses world_ok ''j1'' request_example Map.empty =
     [JStr ''queued'', JStr ''downloading'', JStr ''preparing'', JStr ''rendering'',
      JStr ''completed'']"
  "statuses world_disk_full ''j1'' request_example Map.empty =
     [JStr ''queued'', JStr ''downloading'']"
  by (simp_all add: life_simps run_404 run_inverted run_engine_fails run_ok run_disk_full)

text \<open>The run in which everything succeeds.\<close>

theorem C3_witness:
  "distinct (statuses world_ok ''j1'' request_example Map.empty)
   \<and> successively spec_step (statuses world_ok ''j1'' request_example Map.empty)
   \<and> statuses world_ok ''j1'' request_example Map.empty \<in>
          {[JStr ''queued'', JStr ''downloading'', JStr ''failed''],
           [JStr ''queued'', JStr ''downloading'', JStr ''preparing'', JStr ''failed''],
           [JStr ''queued'', JStr ''downloading'', JStr ''preparing'', JStr ''rendering'',
            JStr ''failed''],
           [JStr ''queued'', JStr ''downloading'', JStr ''preparing'', JStr ''rendering'',
            JStr ''completed'']}"
  using C3_status_order [of world_ok "''j1''" request_example Map.empty]
  by (simp add: run_ok)

section \<open>Failures inside the unit of work\<close>

text \<open>What the \<open>try\<close> block throws is caught: the record ends \<open>failed\<close> with the error's
  string and progress 0, the call returns, and the queue's \<open>.catch\<close> writes nothing.\<close>

lemma foldl_setJob_snoc:
  "foldl (\<lambda>t p. setJob jid p t) tbl (ws @ [p]) jid =
     Some ((case foldl (\<lambda>t p. setJob jid p t) tbl ws jid of Some j \<Rightarrow> j | None \<Rightarrow> Map.empty) ++ p)"
  by (simp add: setJob_def Let_def)

lemma processJob_run_throw:
  "processJob_try w cfg = (ws, Thrown e) \<Longrightarrow>
   processJob_run w cfg =
     (ws @ [[''status'' \<mapsto> JStr ''failed'', ''progress'' \<mapsto> JNum (Fin 0),
             ''error'' \<mapsto> JStr (String_of e)]], Returned)"
  by (simp add: processJob_run_def try_catch_def processJob_catch_def)

lemma processJob_run_never_throws: "snd (processJob_run w cfg) \<noteq> Thrown e"
  by (cases "processJob_try w cfg")
     (auto simp: processJob_run_def try_catch_def processJob_catch_def split: outcome.splits)

lemma run_task_table: "fst (run_task w jid cfg tbl) = fst (processJob w jid cfg tbl)"
  using processJob_run_never_throws [of w cfg]
  by (cases "processJob_run w cfg")
     (auto simp: run_task_def processJob_def split: outcome.splits)

lemma thrown_is_caught:
  assumes "snd (processJob_try w cfg) = Thrown e"
  shows "(\<exists>j. fst (processJob w jid cfg tbl) jid = Some j
            \<and> field j ''status'' = JStr ''failed''
            \<and> field j ''error'' = JStr (String_of e)
            \<and> field j ''error'' \<noteq> JNull
            \<and> field j ''progress'' = JNum (Fin 0))
       \<and> snd (processJob w jid cfg tbl) = Returned
       \<and> run_task w jid cfg tbl = (fst (processJob w jid cfg tbl), None)"
proof -
  obtain ws where t: "processJob_try w cfg = (ws, Thrown e)"
    using assms by (cases "processJob_try w cfg") simp
  have r: "processJob w jid cfg tbl =
      (foldl (\<lambda>t p. setJob jid p t) tbl
         (ws @ [[''status'' \<mapsto> JStr ''failed'', ''progress'' \<mapsto> JNum (Fin 0),
                 ''error'' \<mapsto> JStr (String_of e)]]), Returned)"
    by (simp add: processJob_def processJob_run_throw [OF t])
  show ?thesis
    unfolding run_task_def r fst_conv snd_conv foldl_setJob_snoc
    by (simp add: field_def)
qed

text \<open>Throws of the \<open>try\<close> block: a rejected fetch, a response that is not ok, an error
  of the body stream, a clip that fails validation, an engine that exits with an error.\<close>

lemma fetch_failure_throws:
  "mkdtemp w = Inr d \<Longrightarrow> get_prop cfg ''sourceUrl'' = Inr url \<Longrightarrow> fetch w url = Inl e \<Longrightarrow>
   snd (processJob_try w cfg) = Thrown e"
  by (simp add: processJob_try_def download_def)

lemma http_failure_throws:
  "mkdtemp w = Inr d \<Longrightarrow> get_prop cfg ''sourceUrl'' = Inr url \<Longrightarrow> fetch w url = Inr r \<Longrightarrow>
   \<not> ok r \<Longrightarrow>
   snd (processJob_try w cfg) =
     Thrown (Error (''Download failed: '' @ dec (status r) @ '' '' @ statusText r))"
  by (simp add: processJob_try_def download_def)

lemma body_error_throws:
  "mkdtemp w = Inr d \<Longrightarrow> get_prop cfg ''sourceUrl'' = Inr url \<Longrightarrow> fetch w url = Inr r \<Longrightarrow>
   ok r \<Longrightarrow> mkdir w (path_join d ''source.mp4'') = Inr () \<Longrightarrow>
   pipe w (path_join d ''source.mp4'') = Body_error e \<Longrightarrow>
   snd (processJob_try w cfg) = Thrown e"
  by (simp add: processJob_try_def download_def)

lemma validation_failure_throws:
  "mkdtemp w = Inr d \<Longrightarrow> get_prop cfg ''sourceUrl'' = Inr url \<Longrightarrow>
   download w url (path_join d ''source.mp4'') = Returned \<Longrightarrow>
   filterParts (to_text w) cfg = Inl e \<Longrightarrow>
   snd (processJob_try w cfg) = Thrown e"
  by (simp add: processJob_try_def)

lemma engine_failure_throws:
  "mkdtemp w = Inr d \<Longrightarrow> get_prop cfg ''sourceUrl'' = Inr url \<Longrightarrow>
   download w url (path_join d ''source.mp4'') = Returned \<Longrightarrow>
   filterParts (to_text w) cfg = Inr parts \<Longrightarrow>
   execFile w (ffArgs (path_join d ''source.mp4'') parts (path_join d ''out.mp4'')) = Inl e \<Longrightarrow>
   snd (processJob_try w cfg) = Thrown e"
  by (simp add: processJob_try_def)

text \<open>An error of the write stream is not among them: \<open>ws\<close> has no \<open>error\<close> listener, so
  the exception reaches no handler and the record stays at \<open>downloading\<close>.\<close>

lemma write_error_escapes:
  assumes "mkdtemp w = Inr d" and "get_prop cfg ''sourceUrl'' = Inr url"
    and "fetch w url = Inr r" and "ok r" and "mkdir w (path_join d ''source.mp4'') = Inr ()"
    and "pipe w (path_join d ''source.mp4'') = Write_error e"
  shows "run_task w jid cfg tbl =
     (setJob jid [''status'' \<mapsto> JStr ''downloading'', ''progress'' \<mapsto> JNum (Fin 5)] tbl, Some e)"
  using assms
  by (simp add: run_task_def processJob_def processJob_run_def try_catch_def
      processJob_try_def download_def)



section \<open>What the routes answer\<close>

text \<open>
  Claim C6. A request whose \<open>sourceUrl\<close> is absent, or whose \<open>clips\<close> is not an array, or
  whose \<open>clips\<close> is the empty array, is answered at once with status 400 and a document
  that has an \<open>error\<close> member only (no job identifier); the table and the queue are as they
  were.
\<close>

theorem C6_invalid_submission_rejected:
  assumes "opt_prop payload ''sourceUrl'' = JUndefined
         \<or> \<not> isArray (opt_prop payload ''clips'')
         \<or> opt_prop payload ''clips'' = JArr []"
  shows "post_render jobId payload s =
     (Json 400 (JObj [(''error'',
        JStr ''Invalid payload. Need sourceUrl and non-empty clips[]'')]), s)"
proof -
  have "opt_prop payload ''clips'' = JArr [] \<Longrightarrow> member payload ''clips'' = JArr []"
    by (auto simp: opt_prop_def split: if_splits)
  with assms show ?thesis
    by (auto simp: post_render_def json_obj_def)
qed

text \<open>The specification's scenario \<open>clips: []\<close>.\<close>

theorem C6_witness:
  "post_render ''j1'' (JObj [(''sourceUrl'', JStr ''https://x/video.mp4''), (''clips'', JArr [])])
     \<lparr>jobs = Map.empty, queue = []\<rparr>
   = (Json 400 (JObj [(''error'',
        JStr ''Invalid payload. Need sourceUrl and non-empty clips[]'')]),
      \<lparr>jobs = Map.empty, queue = []\<rparr>)"
  using C6_invalid_submission_rejected [of
      "JObj [(''sourceUrl'', JStr ''https://x/video.mp4''), (''clips'', JArr [])]"
      "''j1''" "\<lparr>jobs = Map.empty, queue = []\<rparr>"]
  by (simp add: opt_prop_def)

text \<open>An accepted request: the identifier is returned, the \<open>queued\<close> record stored, the
  task appended to the queue.\<close>

lemma post_render_accepts:
  "truthy (opt_prop payload ''sourceUrl'') \<Longrightarrow> opt_prop payload ''clips'' = JArr (c # cs) \<Longrightarrow>
   post_render jobId payload s =
     (Json 200 (JObj [(''jobId'', JStr jobId)]),
      s\<lparr>jobs := (jobs s)(jobId \<mapsto> queued_record), queue := queue s @ [(jobId, payload)]\<rparr>)"
  by (auto simp: post_render_def json_obj_def opt_prop_def split: if_splits)

text \<open>What every record in the life of a job looks like: \<open>file\<close> is \<open>null\<close> until the
  status is \<open>completed\<close>, and the output path from then on.\<close>

lemma job_life_record:
  assumes "t \<in> set (job_life w jid payload tbl)"
  shows "\<exists>j. t jid = Some j
    \<and> (\<exists>s. j ''status'' = Some (JStr s)) \<and> (\<exists>p. j ''progress'' = Some (JNum (Fin p)))
    \<and> (j ''error'' = Some JNull \<or> (\<exists>m. j ''error'' = Some (JStr m)))
    \<and> (j ''status'' = Some (JStr ''completed'') \<longrightarrow>
         (\<exists>d. mkdtemp w = Inr d \<and> j ''file'' = Some (JStr (path_join d ''out.mp4''))))
    \<and> (j ''status'' \<noteq> Some (JStr ''completed'') \<longrightarrow> j ''file'' = Some JNull)"
  using processJob_run_cases [of w payload] assms
  by (elim disjE exE conjE) (auto simp: job_life_def setJob_def queued_record_def)

text \<open>
  Claim C7. A status query for an unknown identifier is answered 404, not found. For a
  job, at every point of its life, the answer is a document with exactly the members
  \<open>status\<close>, \<open>progress\<close>, \<open>downloadUrl\<close> and \<open>error\<close>; \<open>downloadUrl\<close> is \<open>null\<close> as long as the
  status is not \<open>completed\<close>, and the download path of the job once it is.
\<close>

theorem C7_status_document:
  "(tbl jid = None \<longrightarrow> get_render jid tbl = Json 404 (JObj [(''error'', JStr ''Not found'')]))
   \<and> (\<forall>t \<in> set (job_life w jid payload tbl0).
        \<exists>s p d e. get_render jid t =
            Json 200 (JObj [(''status'', s), (''progress'', p), (''downloadUrl'', d),
                            (''error'', e)])
          \<and> s = status_of jid t
          \<and> (s \<noteq> JStr ''completed'' \<longrightarrow> d = JNull)
          \<and> (s = JStr ''completed'' \<longrightarrow> d = JStr (''/download/'' @ jid)))"
proof (intro conjI impI ballI)
  assume "tbl jid = None"
  then show "get_render jid tbl = Json 404 (JObj [(''error'', JStr ''Not found'')])"
    by (simp add: get_render_def json_obj_def)
next
  fix t assume "t \<in> set (job_life w jid payload tbl0)"
  from job_life_record [OF this] obtain j s p where
    j: "t jid = Some j" "j ''status'' = Some (JStr s)" "j ''progress'' = Some (JNum (Fin p))"
       "j ''error'' = Some JNull \<or> (\<exists>m. j ''error'' = Some (JStr m))"
    and c: "j ''status'' = Some (JStr ''completed'') \<longrightarrow>
         (\<exists>d. mkdtemp w = Inr d \<and> j ''file'' = Some (JStr (path_join d ''out.mp4'')))"
    and n: "j ''status'' \<noteq> Some (JStr ''completed'') \<longrightarrow> j ''file'' = Some JNull"
    by blast
  show "\<exists>s p d e. get_render jid t =
            Json 200 (JObj [(''status'', s), (''progress'', p), (''downloadUrl'', d),
                            (''error'', e)])
          \<and> s = status_of jid t
          \<and> (s \<noteq> JStr ''completed'' \<longrightarrow> d = JNull)
          \<and> (s = JStr ''completed'' \<longrightarrow> d = JStr (''/download/'' @ jid))"
  proof (cases "s = ''completed''")
    case True
    with c j obtain d where "j ''file'' = Some (JStr (path_join d ''out.mp4''))" by auto
    with j True show ?thesis
      by (auto simp: get_render_def json_obj_def field_def status_of_def path_join_def)
  next
    case False
    with n j have "j ''file'' = Some JNull" by simp
    with j False show ?thesis
      by (auto simp: get_render_def json_obj_def field_def status_of_def)
  qed
qed

text \<open>The example job when queued and when completed, and an unknown identifier.\<close>

theorem C7_witness:
  "get_render ''j1'' (hd (job_life world_ok ''j1'' request_example Map.empty)) =
     Json 200 (JObj [(''status'', JStr ''queued''), (''progress'', JNum (Fin 0)),
                     (''downloadUrl'', JNull), (''error'', JNull)])
   \<and> get_render ''j1'' (last (job_life world_ok ''j1'' request_example Map.empty)) =
     Json 200 (JObj [(''status'', JStr ''completed''), (''progress'', JNum (Fin 100)),
                     (''downloadUrl'', JStr ''/download/j1''), (''error'', JNull)])
   \<and> get_render ''j1'' Map.empty = Json 404 (JObj [(''error'', JStr ''Not found'')])"
  using C7_status_document [of Map.empty "''j1''" world_ok request_example Map.empty]
  by (simp add: job_life_def run_ok setJob_def queued_record_def get_render_def json_obj_def
      field_def status_of_def)

text \<open>
  Claim C8, as amended. A download query for an unknown identifier and one for a job
  that is not \<open>completed\<close> get the same answer, status 404 with the text \<open>Not ready\<close>; for a
  completed job the answer is the output file, sent as the attachment \<open>export.mp4\<close>.
\<close>

theorem C8_download_replies:
  "(tbl jid = None \<longrightarrow> get_download jid tbl = Send 404 ''Not ready'')
   \<and> (\<forall>t \<in> set (job_life w jid payload tbl0).
        (status_of jid t \<noteq> JStr ''completed'' \<longrightarrow> get_download jid t = Send 404 ''Not ready'')
        \<and> (status_of jid t = JStr ''completed'' \<longrightarrow>
            (\<exists>d. mkdtemp w = Inr d
              \<and> get_download jid t = Attachment (JStr (path_join d ''out.mp4'')) ''export.mp4'')))"
proof (intro conjI impI ballI)
  assume "tbl jid = None"
  then show "get_download jid tbl = Send 404 ''Not ready''"
    by (simp add: get_download_def)
next
  fix t assume t: "t \<in> set (job_life w jid payload tbl0)"
    and n: "status_of jid t \<noteq> JStr ''completed''"
  from job_life_record [OF t] n show "get_download jid t = Send 404 ''Not ready''"
    by (auto simp: get_download_def field_def status_of_def)
next
  fix t assume t: "t \<in> set (job_life w jid payload tbl0)"
    and c: "status_of jid t = JStr ''completed''"
  from job_life_record [OF t] c
  show "\<exists>d. mkdtemp w = Inr d
      \<and> get_download jid t = Attachment (JStr (path_join d ''out.mp4'')) ''export.mp4''"
    by (auto simp: get_download_def field_def status_of_def path_join_def)
qed

text \<open>The example job when queued and when completed, and an unknown identifier.\<close>

theorem C8_witness:
  "get_download ''j1'' (hd (job_life world_ok ''j1'' request_example Map.empty)) =
     Send 404 ''Not ready''
   \<and> get_download ''j1'' (last (job_life world_ok ''j1'' request_example Map.empty)) =
     Attachment (JStr ''/tmp/render-a1/out.mp4'') ''export.mp4''
   \<and> get_download ''j1'' Map.empty = Send 404 ''Not ready''"
  using C8_download_replies [of Map.empty "''j1''" world_ok request_example Map.empty]
  by (simp add: job_life_def run_ok setJob_def queued_record_def get_download_def
      field_def status_of_def)

text \<open>
  Claim C8 as stated has two distinct signals, not found and not ready. The route has
  one guard, \<open>!job || !job.file\<close>, and one answer for both: an unknown identifier and a
  queued job are answered alike.
\<close>

theorem C8_counterexample:
  "get_download ''j1'' Map.empty = Send 404 ''Not ready''
   \<and> get_download ''j1'' [''j1'' \<mapsto> queued_record] = Send 404 ''Not ready''"
  by (simp add: get_download_def field_def queued_record_def)

end
